theory Spec2Isabelle
  imports Complex_Main
begin

section \<open>Data model of \<open>email_profiler.py\<close>\<close>

text \<open>
  Python strings are modelled as \<open>string\<close> (a list of characters; a character
  stands for one code point below 256).  Exceptions are values: every function that can
  raise returns \<open>py_error + 'a\<close>, with \<open>Inl\<close> for the exception.
  \<open>CapabilityError\<close> stands for whatever exception an external collaborator
  (the email provider, the knowledge-base manager, the preprocessor, the terminal)
  raises; the messages of the \<open>ValueError\<close>s raised by \<open>str.format\<close>
  are written without their quotation marks.
\<close>

datatype py_error =
    ValueError string
  | KeyError string
  | IndexError string
  | AttributeError string
  | UnboundLocalError string
  | CapabilityError string

text \<open>
  \<open>email_message.sender\<close> is an object whose only attribute read by the module is
  \<open>email\<close>; of a message the module reads \<open>message_id\<close>, \<open>subject\<close>
  and \<open>sender\<close>, and hands the whole message to the preprocessor.
\<close>

record email_address =
  email :: string

record email_message =
  message_id :: string
  subject :: string
  sender :: email_address
  body :: string

text \<open>
  One search hit.  \<open>similarity_score\<close> is a Python float; the only operation on it
  is the comparison with \<open>0.5\<close>, a number that binary floating point represents
  exactly, so the score is taken as the real number the float denotes.
\<close>

record context_result =
  content :: string
  similarity_score :: real

text \<open>
  The configuration is the dictionary read from the JSON file.  A key of a dictionary
  can be absent (subscripting then raises \<open>KeyError\<close>), \<open>null\<close>, or hold a value.
  An entry of \<open>answer_patterns\<close> is a dictionary with the keys
  \<open>answer_pattern\<close> and \<open>answer_type\<close>, each of which may be absent.
\<close>

datatype 'a json_key = Absent | Null | Present 'a

record pattern_entry =
  answer_pattern :: "string option"
  answer_type :: "string option"

record config =
  whitelist :: "string list json_key"
  blacklist :: "string list json_key"
  answer_patterns :: "(string \<rightharpoonup> pattern_entry) option"

section \<open>\<open>str.format\<close> with keyword arguments only\<close>

text \<open>
  \<open>get_answer_for_email\<close> renders its template with
  \<open>answer_pattern.format(sender=..., context_results=...)\<close>: no positional
  arguments and two keyword arguments, both strings.  The model follows the
  interpreter's scan from left to right: literal text is copied, \<open>{{\<close> and
  \<open>}}\<close> give one brace, a single \<open>}\<close> is an error, and \<open>{\<close> opens a
  replacement field that runs up to the next \<open>}\<close>.

  A field name that is empty or made of digits refers to a positional argument, of which
  there are none.  Any other name is looked up among the keyword arguments.  An
  attribute taken from a string value (\<open>{sender.email}\<close>) raises
  \<open>AttributeError\<close> unless \<open>str\<close> has such an attribute.

  Fields that use an index (\<open>[\<close>), a conversion (\<open>!\<close>), a format specification
  (\<open>:\<close>), an attribute that \<open>str\<close> may have, or a positional index of more than
  nine digits are not spelled out: from such a field on, the result is what the parameter
  \<open>ext\<close> (the interpreter on the rest of the template) returns.
\<close>

type_synonym kwargs = "(string \<times> string) list"

type_synonym format_rest = "string \<Rightarrow> kwargs \<Rightarrow> py_error + string"

datatype field_scan =
    FieldClosed string string
  | FieldInvalid py_error
  | FieldExtended

fun scan_field :: "string \<Rightarrow> field_scan" where
  "scan_field [] = FieldInvalid (ValueError ''expected } before end of string'')"
| "scan_field (c # cs) =
     (if c = CHR ''{'' then FieldInvalid (ValueError ''unexpected { in field name'')
      else if c = CHR ''}'' then FieldClosed [] cs
      else if c = CHR ''['' \<or> c = CHR '':'' \<or> c = CHR ''!'' then FieldExtended
      else (case scan_field cs of
              FieldClosed f rest \<Rightarrow> FieldClosed (c # f) rest
            | FieldInvalid e \<Rightarrow> FieldInvalid e
            | FieldExtended \<Rightarrow> FieldExtended))"

definition is_digit :: "char \<Rightarrow> bool" where
  "is_digit c = (c \<in> set ''0123456789'')"

definition str_methods :: "string list" where
  "str_methods =
     [''capitalize'', ''casefold'', ''center'', ''count'', ''encode'', ''endswith'',
      ''expandtabs'', ''find'', ''format'', ''format_map'', ''index'', ''isalnum'',
      ''isalpha'', ''isascii'', ''isdecimal'', ''isdigit'', ''isidentifier'', ''islower'',
      ''isnumeric'', ''isprintable'', ''isspace'', ''istitle'', ''isupper'', ''join'',
      ''ljust'', ''lower'', ''lstrip'', ''maketrans'', ''partition'', ''removeprefix'',
      ''removesuffix'', ''replace'', ''rfind'', ''rindex'', ''rjust'', ''rpartition'',
      ''rsplit'', ''rstrip'', ''split'', ''splitlines'', ''startswith'', ''strip'',
      ''swapcase'', ''title'', ''translate'', ''upper'', ''zfill'']"

definition str_may_have_attribute :: "string \<Rightarrow> bool" where
  "str_may_have_attribute a = (take 1 a = ''_'' \<or> a \<in> set str_methods)"

datatype field_value =
    Rendered string
  | Fails py_error
  | Extended

text \<open>
  The index the interpreter prints in its \<open>IndexError\<close>: the decimal value of
  the digits, \<open>0\<close> for the empty name of the first automatically numbered field.
\<close>

definition index_text :: "string \<Rightarrow> string" where
  "index_text first =
     (let d = dropWhile (\<lambda>c. c = CHR ''0'') first in if d = [] then ''0'' else d)"

definition render_field :: "string \<Rightarrow> kwargs \<Rightarrow> field_value" where
  "render_field f kw =
     (let first = takeWhile (\<lambda>c. c \<noteq> CHR ''.'') f;
          accessors = dropWhile (\<lambda>c. c \<noteq> CHR ''.'') f
      in if list_all is_digit first then
           (if length first \<le> 9
            then Fails (IndexError (''Replacement index '' @ index_text first
                          @ '' out of range for positional args tuple''))
            else Extended)
         else (case map_of kw first of
                 None \<Rightarrow> Fails (KeyError first)
               | Some v \<Rightarrow>
                   (if accessors = [] then Rendered v
                    else let a = takeWhile (\<lambda>c. c \<noteq> CHR ''.'') (tl accessors)
                         in if a = [] then Fails (ValueError ''Empty attribute in format string'')
                            else if str_may_have_attribute a then Extended
                            else Fails (AttributeError a))))"

definition prepend :: "string \<Rightarrow> py_error + string \<Rightarrow> py_error + string" where
  "prepend v r = (case r of Inl e \<Rightarrow> Inl e | Inr t \<Rightarrow> Inr (v @ t))"

lemma scan_field_shorter:
  "scan_field cs = FieldClosed f rest \<Longrightarrow> length rest < length cs"
  by (induction cs arbitrary: f rest) (auto split: if_splits field_scan.splits)

function py_format :: "format_rest \<Rightarrow> string \<Rightarrow> kwargs \<Rightarrow> py_error + string" where
  "py_format ext [] kw = Inr []"
| "py_format ext (c # cs) kw =
     (if c = CHR ''}'' then
        (case cs of
           [] \<Rightarrow> Inl (ValueError ''Single } encountered in format string'')
         | d # rest \<Rightarrow>
             (if d = CHR ''}'' then prepend [c] (py_format ext rest kw)
              else Inl (ValueError ''Single } encountered in format string'')))
      else if c = CHR ''{'' then
        (case cs of
           [] \<Rightarrow> Inl (ValueError ''Single { encountered in format string'')
         | d # rest \<Rightarrow>
             (if d = CHR ''{'' then prepend [c] (py_format ext rest kw)
              else (case scan_field cs of
                      FieldInvalid e \<Rightarrow> Inl e
                    | FieldExtended \<Rightarrow> ext (c # cs) kw
                    | FieldClosed f after \<Rightarrow>
                        (case render_field f kw of
                           Fails e \<Rightarrow> Inl e
                         | Extended \<Rightarrow> ext (c # cs) kw
                         | Rendered v \<Rightarrow> prepend v (py_format ext after kw)))))
      else prepend [c] (py_format ext cs kw))"
  by pat_completeness auto
termination
  by (relation "measure (\<lambda>(ext, s, kw). length s)")
     (auto simp del: scan_field.simps dest!: scan_field_shorter)

section \<open>External capabilities and the state\<close>

text \<open>
  The email provider, the knowledge-base manager, the preprocessor, the terminal and the
  start-up helpers are outside the module.  Each is a function of an abstract world
  \<open>'w\<close> that returns a value or an exception together with the next world, so the
  theorems hold for every behaviour of the collaborators.  The state of a run is the
  world and the list of the calls made so far on the email provider and on the
  knowledge-base manager, oldest first.  Logging is not modelled.
\<close>

datatype search_strategy = HYBRID | OTHER_STRATEGY

datatype call =
    Connect
  | Disconnect
  | FetchMessages
  | CreateDraft email_address string string
  | SendMessageDirect email_address string string
  | KbCheckNewEmails nat bool
  | KbSearch string string search_strategy nat
  | KbProcessNewEmails "string list" string
  | KbProcessDocument string string
  | KbListCollections
  | KbClose

text \<open>
  What the terminal does during one \<open>wait_with_quit\<close>: standard input is not a
  terminal, or it is one and the \<open>while\<close> loop makes one \<open>select\<close> per
  element of the list before the deadline passes: \<open>None\<close> when \<open>select\<close>
  times out, \<open>Some ch\<close> when \<open>sys.stdin.read(1)\<close> returns \<open>ch\<close>.
\<close>

datatype terminal_obs = NotATty | Tty "string option list"

record 'w capabilities =
  ep_connect :: "'w \<Rightarrow> (py_error + unit) \<times> 'w"
  ep_disconnect :: "'w \<Rightarrow> (py_error + unit) \<times> 'w"
  ep_fetch_messages :: "'w \<Rightarrow> (py_error + email_message list) \<times> 'w"
  ep_create_draft :: "email_address \<Rightarrow> string \<Rightarrow> string \<Rightarrow> 'w \<Rightarrow> (py_error + string) \<times> 'w"
  ep_send_message_direct :: "email_address \<Rightarrow> string \<Rightarrow> string \<Rightarrow> 'w \<Rightarrow> (py_error + bool) \<times> 'w"
  kbm_check_new_emails :: "nat \<Rightarrow> bool \<Rightarrow> 'w \<Rightarrow> (py_error + email_message list) \<times> 'w"
  kbm_search :: "string \<Rightarrow> string \<Rightarrow> search_strategy \<Rightarrow> nat \<Rightarrow> 'w \<Rightarrow> (py_error + context_result list) \<times> 'w"
  kbm_process_new_emails :: "string list \<Rightarrow> string \<Rightarrow> 'w \<Rightarrow> (py_error + string list) \<times> 'w"
  kbm_process_document :: "string \<Rightarrow> string \<Rightarrow> 'w \<Rightarrow> (py_error + unit) \<times> 'w"
  kbm_list_collections :: "'w \<Rightarrow> (py_error + string list) \<times> 'w"
  kbm_close :: "'w \<Rightarrow> (py_error + unit) \<times> 'w"
  clean_email_body :: "email_message \<Rightarrow> py_error + string"
  terminal :: "nat \<Rightarrow> 'w \<Rightarrow> (py_error + terminal_obs) \<times> 'w"
  str_format_rest :: format_rest
  initialize_email_profile :: "'w \<Rightarrow> (py_error + unit) \<times> 'w"
  initialize_knowledge_base_manager :: "'w \<Rightarrow> (py_error + unit) \<times> 'w"
  load_email_assistant_config :: "string \<Rightarrow> 'w \<Rightarrow> (py_error + config) \<times> 'w"

record 'w state =
  world :: 'w
  calls :: "call list"

type_synonym ('w, 'a) action = "'w state \<Rightarrow> (py_error + 'a) \<times> 'w state"

definition returns :: "'a \<Rightarrow> ('w, 'a) action" where
  "returns v s = (Inr v, s)"

definition raises :: "py_error \<Rightarrow> ('w, 'a) action" where
  "raises e s = (Inl e, s)"

definition lift :: "py_error + 'a \<Rightarrow> ('w, 'a) action" where
  "lift r s = (r, s)"

definition and_then :: "('w, 'a) action \<Rightarrow> ('a \<Rightarrow> ('w, 'b) action) \<Rightarrow> ('w, 'b) action" where
  "and_then m f s = (case m s of (Inl e, s') \<Rightarrow> (Inl e, s') | (Inr v, s') \<Rightarrow> f v s')"

definition perform :: "('w \<Rightarrow> (py_error + 'a) \<times> 'w) \<Rightarrow> ('w, 'a) action" where
  "perform op s = (case op (world s) of (r, w') \<Rightarrow> (r, s\<lparr>world := w'\<rparr>))"

definition invoke :: "call \<Rightarrow> ('w \<Rightarrow> (py_error + 'a) \<times> 'w) \<Rightarrow> ('w, 'a) action" where
  "invoke c op s =
     (case op (world s) of (r, w') \<Rightarrow> (r, \<lparr>world = w', calls = calls s @ [c]\<rparr>))"

text \<open>Subscripting the configuration: \<open>config["whitelist"]\<close>.\<close>

definition subscript :: "string \<Rightarrow> 'a json_key \<Rightarrow> py_error + 'a option" where
  "subscript k v =
     (case v of Absent \<Rightarrow> Inl (KeyError k) | Null \<Rightarrow> Inr None | Present x \<Rightarrow> Inr (Some x))"

section \<open>\<open>wait_with_quit\<close>\<close>

text \<open>\<open>ch.lower() == 'q'\<close> holds for the one-character strings \<open>q\<close> and \<open>Q\<close>.\<close>

definition lower_is_q :: "string \<Rightarrow> bool" where
  "lower_is_q ch = (ch = ''q'' \<or> ch = ''Q'')"

fun quit_pressed :: "string option list \<Rightarrow> bool" where
  "quit_pressed [] = False"
| "quit_pressed (None # ticks) = quit_pressed ticks"
| "quit_pressed (Some ch # ticks) = (if lower_is_q ch then True else quit_pressed ticks)"

definition wait_with_quit :: "'w capabilities \<Rightarrow> nat \<Rightarrow> ('w, bool) action" where
  "wait_with_quit cap timeout_seconds =
     and_then (perform (terminal cap timeout_seconds)) (\<lambda>obs.
       case obs of
         NotATty \<Rightarrow> returns False
       | Tty ticks \<Rightarrow> returns (quit_pressed ticks))"

section \<open>The sender filter: \<open>check_new_emails\<close> and \<open>email_database_creation\<close>\<close>

definition both_lists_error :: py_error where
  "both_lists_error = ValueError ''Whitelist and blacklist cannot be used together''"

definition sender_filter ::
  "string list option \<Rightarrow> string list option \<Rightarrow> email_message list \<Rightarrow> email_message list" where
  "sender_filter wl bl emails =
     (if wl = None \<and> bl = None then emails
      else (case wl of
              Some w \<Rightarrow> filter (\<lambda>email_msg. email (sender email_msg) \<in> set w) emails
            | None \<Rightarrow>
                (case bl of
                   Some b \<Rightarrow> filter (\<lambda>email_msg. email (sender email_msg) \<notin> set b) emails
                 | None \<Rightarrow> emails)))"

definition check_new_emails ::
  "'w capabilities \<Rightarrow> string \<Rightarrow> nat \<Rightarrow> string list option \<Rightarrow> string list option
     \<Rightarrow> ('w, email_message list) action" where
  "check_new_emails cap collection limit wl bl =
     (if wl \<noteq> None \<and> bl \<noteq> None then raises both_lists_error
      else and_then (invoke (KbCheckNewEmails limit True) (kbm_check_new_emails cap limit True))
             (\<lambda>new_emails.
                let filtered_emails = sender_filter wl bl new_emails
                in if length filtered_emails \<noteq> 0 then returns filtered_emails
                   else returns []))"

definition email_database_creation ::
  "'w capabilities \<Rightarrow> string list option \<Rightarrow> string list option \<Rightarrow> string
     \<Rightarrow> ('w, unit) action" where
  "email_database_creation cap wl bl collection =
     (if wl \<noteq> None \<and> bl \<noteq> None then raises both_lists_error
      else and_then (invoke Connect (ep_connect cap)) (\<lambda>_.
           and_then (invoke FetchMessages (ep_fetch_messages cap)) (\<lambda>emails.
             let filtered_email_ids = map message_id (sender_filter wl bl emails)
             in and_then (invoke (KbProcessNewEmails filtered_email_ids collection)
                            (kbm_process_new_emails cap filtered_email_ids collection)) (\<lambda>stored_ids.
                and_then (invoke Disconnect (ep_disconnect cap)) (\<lambda>_. returns ())))))"

section \<open>\<open>get_answer_for_email\<close>\<close>

definition default_answer_pattern :: string where
  "default_answer_pattern =
     ''Hello {sender.email}, I am the email assistant. I have found the following information for your question: {context_results}''"

text \<open>Lines 476 to 479: the template of the sender, or the default one.\<close>

definition resolve_answer_pattern :: "config \<Rightarrow> string \<Rightarrow> py_error + string" where
  "resolve_answer_pattern email_assistant_config addr =
     (case answer_patterns email_assistant_config of
        None \<Rightarrow> Inl (KeyError ''answer_patterns'')
      | Some patterns \<Rightarrow>
          (case patterns addr of
             Some entry \<Rightarrow>
               (case answer_pattern entry of
                  None \<Rightarrow> Inl (KeyError ''answer_pattern'')
                | Some p \<Rightarrow> Inr p)
           | None \<Rightarrow> Inr default_answer_pattern))"

definition newline :: string where
  "newline = [CHR 0x0A]"

text \<open>Lines 489 to 492: the loop that collects the confident results.\<close>

fun confident_loop :: "string \<Rightarrow> context_result list \<Rightarrow> string" where
  "confident_loop context_result_confident [] = context_result_confident"
| "confident_loop context_result_confident (context_result # rest) =
     confident_loop
       (if similarity_score context_result > 0.5
        then context_result_confident @ content context_result @ newline
        else context_result_confident)
       rest"

definition confident_context :: "context_result list \<Rightarrow> string" where
  "confident_context results = confident_loop [] results"

text \<open>
  Line 495: \<open>answer_pattern.format(sender=email_message.sender.email,
  context_results=context_result_confident)\<close>.
\<close>

definition render_answer :: "format_rest \<Rightarrow> string \<Rightarrow> string \<Rightarrow> string \<Rightarrow> py_error + string" where
  "render_answer ext pattern addr context_result_confident =
     py_format ext pattern
       [(''sender'', addr), (''context_results'', context_result_confident)]"

definition get_answer_for_email ::
  "'w capabilities \<Rightarrow> config \<Rightarrow> email_message \<Rightarrow> string \<Rightarrow> ('w, string option) action" where
  "get_answer_for_email cap email_assistant_config email_message collection =
     and_then (lift (resolve_answer_pattern email_assistant_config
                       (email (sender email_message)))) (\<lambda>pattern.
     and_then (lift (clean_email_body cap email_message)) (\<lambda>email_body.
     and_then (invoke (KbSearch email_body collection HYBRID 3)
                 (kbm_search cap email_body collection HYBRID 3)) (\<lambda>results.
       if length results = 0 then returns None
       else let context_result_confident = confident_context results
            in if context_result_confident \<noteq> []
               then and_then (lift (render_answer (str_format_rest cap) pattern
                                      (email (sender email_message)) context_result_confident))
                      (\<lambda>answer. returns (Some answer))
               else returns None)))"

section \<open>Sending and drafting\<close>

definition send_answer_to_email ::
  "'w capabilities \<Rightarrow> email_message \<Rightarrow> string \<Rightarrow> ('w, bool) action" where
  "send_answer_to_email cap email_message answer =
     (let subj = ''RE: '' @ subject email_message
      in invoke (SendMessageDirect (sender email_message) subj answer)
           (ep_send_message_direct cap (sender email_message) subj answer))"

definition draft_answer_for_email ::
  "'w capabilities \<Rightarrow> email_message \<Rightarrow> string \<Rightarrow> ('w, string) action" where
  "draft_answer_for_email cap email_message answer =
     invoke (CreateDraft (sender email_message) (''RE: '' @ subject email_message) answer)
       (ep_create_draft cap (sender email_message) (''RE: '' @ subject email_message) answer)"

text \<open>
  Line 524: the condition \<open>answer_patterns.get(sender) is not None and
  answer_patterns[sender]["answer_type"] == "draft"\<close>.
\<close>

definition wants_draft :: "config \<Rightarrow> string \<Rightarrow> py_error + bool" where
  "wants_draft email_assistant_config addr =
     (case answer_patterns email_assistant_config of
        None \<Rightarrow> Inl (KeyError ''answer_patterns'')
      | Some patterns \<Rightarrow>
          (case patterns addr of
             None \<Rightarrow> Inr False
           | Some entry \<Rightarrow>
               (case answer_type entry of
                  None \<Rightarrow> Inl (KeyError ''answer_type'')
                | Some t \<Rightarrow> Inr (t = ''draft''))))"

text \<open>Lines 523 to 529: what the loop does with the answer of one message.\<close>

definition dispatch_answer ::
  "'w capabilities \<Rightarrow> config \<Rightarrow> email_message \<Rightarrow> string option \<Rightarrow> ('w, unit) action" where
  "dispatch_answer cap email_assistant_config email_message answer =
     (case answer of
        None \<Rightarrow> returns ()
      | Some a \<Rightarrow>
          and_then (lift (wants_draft email_assistant_config (email (sender email_message))))
            (\<lambda>draft_wanted.
               if draft_wanted
               then and_then (draft_answer_for_email cap email_message a) (\<lambda>draft. returns ())
               else and_then (send_answer_to_email cap email_message a) (\<lambda>success. returns ())))"

text \<open>Lines 521 to 529: the body of the \<open>for\<close> loop, and the \<open>for\<close> loop.\<close>

definition process_message ::
  "'w capabilities \<Rightarrow> config \<Rightarrow> email_message \<Rightarrow> ('w, unit) action" where
  "process_message cap email_assistant_config email_message =
     and_then (get_answer_for_email cap email_assistant_config email_message ''Email'')
       (\<lambda>answer. dispatch_answer cap email_assistant_config email_message answer)"

fun process_messages ::
  "'w capabilities \<Rightarrow> config \<Rightarrow> email_message list \<Rightarrow> ('w, unit) action" where
  "process_messages cap email_assistant_config [] s = (Inr (), s)"
| "process_messages cap email_assistant_config (email_message # rest) s =
     (case process_message cap email_assistant_config email_message s of
        (Inl e, s') \<Rightarrow> (Inl e, s')
      | (Inr u, s') \<Rightarrow> process_messages cap email_assistant_config rest s')"

section \<open>\<open>email_assistant_workflow\<close>\<close>

text \<open>
  Lines 518 to 534: one pass of the \<open>while True\<close> loop; the result says whether the
  user asked to quit.  The two subscripts of line 519 are evaluated before the call.
\<close>

definition poll_iteration :: "'w capabilities \<Rightarrow> config \<Rightarrow> ('w, bool) action" where
  "poll_iteration cap email_assistant_config =
     and_then (lift (subscript ''whitelist'' (whitelist email_assistant_config))) (\<lambda>wl.
     and_then (lift (subscript ''blacklist'' (blacklist email_assistant_config))) (\<lambda>bl.
     and_then (check_new_emails cap ''Email'' 5 wl bl) (\<lambda>new_emails.
     and_then (process_messages cap email_assistant_config new_emails) (\<lambda>_.
       wait_with_quit cap 120))))"

text \<open>
  The \<open>while True\<close> loop may run forever: \<open>poll_loop\<close> takes the number of passes it
  may make and returns \<open>None\<close> when they are used up.  \<open>Inr ()\<close> is the
  \<open>break\<close>, \<open>Inl e\<close> an exception that leaves the loop.
\<close>

fun poll_loop :: "nat \<Rightarrow> 'w capabilities \<Rightarrow> config \<Rightarrow> 'w state
    \<Rightarrow> ((py_error + unit) \<times> 'w state) option" where
  "poll_loop 0 cap email_assistant_config s = None"
| "poll_loop (Suc n) cap email_assistant_config s =
     (case poll_iteration cap email_assistant_config s of
        (Inl e, s') \<Rightarrow> Some (Inl e, s')
      | (Inr quit, s') \<Rightarrow>
          (if quit then Some (Inr (), s') else poll_loop n cap email_assistant_config s'))"

text \<open>
  Lines 538 to 541, the \<open>finally\<close> block.  A name that was never bound raises
  \<open>UnboundLocalError\<close>; an exception raised in the block replaces the pending one.
\<close>

definition cleanup :: "'w capabilities \<Rightarrow> bool \<Rightarrow> bool \<Rightarrow> ('w, unit) action" where
  "cleanup cap profile_bound kbm_bound =
     and_then (if profile_bound then invoke Disconnect (ep_disconnect cap)
               else raises (UnboundLocalError ''email_profile'')) (\<lambda>_.
       if kbm_bound then invoke KbClose (kbm_close cap)
       else raises (UnboundLocalError ''kbm''))"

definition try_finally ::
  "(py_error + 'a) \<times> 'w state \<Rightarrow> ('w, unit) action \<Rightarrow> (py_error + 'a) \<times> 'w state" where
  "try_finally r fin =
     (case fin (snd r) of (Inl e, s') \<Rightarrow> (Inl e, s') | (Inr u, s') \<Rightarrow> (fst r, s'))"

text \<open>Lines 517 to 541: the loop, left by \<open>break\<close> or by an exception, then the cleanup.\<close>

definition poll_and_cleanup :: "nat \<Rightarrow> 'w capabilities \<Rightarrow> config \<Rightarrow> 'w state
    \<Rightarrow> ((py_error + unit) \<times> 'w state) option" where
  "poll_and_cleanup fuel cap email_assistant_config s =
     (case poll_loop fuel cap email_assistant_config s of
        None \<Rightarrow> None
      | Some r \<Rightarrow> Some (try_finally r (cleanup cap True True)))"

text \<open>Lines 509 to 515: the collection is created when it does not exist.\<close>

definition bootstrap :: "'w capabilities \<Rightarrow> ('w, config) action" where
  "bootstrap cap =
     and_then (invoke KbListCollections (kbm_list_collections cap)) (\<lambda>collections.
     and_then (perform (load_email_assistant_config cap ''email_assistant_config.json''))
       (\<lambda>email_assistant_config.
          if ''Email'' \<notin> set collections
          then and_then (lift (subscript ''whitelist'' (whitelist email_assistant_config))) (\<lambda>wl.
               and_then (email_database_creation cap wl None ''Email'') (\<lambda>_.
               and_then (invoke (KbProcessDocument ''latex_documents/vahid.tex'' ''Email'')
                           (kbm_process_document cap ''latex_documents/vahid.tex'' ''Email'')) (\<lambda>_.
               and_then (invoke (KbProcessDocument ''latex_documents/mohamed.tex'' ''Email'')
                           (kbm_process_document cap ''latex_documents/mohamed.tex'' ''Email'')) (\<lambda>_.
                 returns email_assistant_config))))
          else returns email_assistant_config))"

definition email_assistant_workflow :: "nat \<Rightarrow> 'w capabilities \<Rightarrow> 'w state
    \<Rightarrow> ((py_error + unit) \<times> 'w state) option" where
  "email_assistant_workflow fuel cap s =
     (case perform (initialize_email_profile cap) s of
        (Inl e, s1) \<Rightarrow> Some (try_finally (Inl e, s1) (cleanup cap False False))
      | (Inr u, s1) \<Rightarrow>
          (case perform (initialize_knowledge_base_manager cap) s1 of
             (Inl e, s2) \<Rightarrow> Some (try_finally (Inl e, s2) (cleanup cap True False))
           | (Inr u, s2) \<Rightarrow>
               (case bootstrap cap s2 of
                  (Inl e, s3) \<Rightarrow> Some (try_finally (Inl e, s3) (cleanup cap True True))
                | (Inr email_assistant_config, s3) \<Rightarrow>
                    poll_and_cleanup fuel cap email_assistant_config s3)))"

section \<open>Notions used in the statements\<close>

text \<open>A piece of template text without braces.\<close>

definition brace_free :: "string \<Rightarrow> bool" where
  "brace_free l = (CHR ''{'' \<notin> set l \<and> CHR ''}'' \<notin> set l)"

text \<open>The calls that go to the email provider.\<close>

definition email_capability_call :: "call \<Rightarrow> bool" where
  "email_capability_call c =
     (case c of
        Connect \<Rightarrow> True | Disconnect \<Rightarrow> True | FetchMessages \<Rightarrow> True
      | CreateDraft to subj b \<Rightarrow> True | SendMessageDirect to subj b \<Rightarrow> True
      | KbCheckNewEmails l i \<Rightarrow> False | KbSearch q c st k \<Rightarrow> False
      | KbProcessNewEmails ids c \<Rightarrow> False | KbProcessDocument p c \<Rightarrow> False
      | KbListCollections \<Rightarrow> False | KbClose \<Rightarrow> False)"

section \<open>An example run\<close>

text \<open>
  A configuration with a whitelist and two answer patterns, an inbox with one message of
  a whitelisted sender and one of another sender, a knowledge base that answers every
  query with one hit above the threshold and one exactly on it, and a user who presses
  \<open>q\<close> at the second tick of the wait.  The preprocessor returns the body as it
  is.  No template of the example has an extended replacement field.
\<close>

definition no_extended_fields :: format_rest where
  "no_extended_fields template kw = Inl (ValueError ''extended replacement field'')"

definition example_message :: email_message where
  "example_message =
     \<lparr>message_id = ''m1'', subject = ''Meeting on Friday?'',
      sender = \<lparr>email = ''a@x.com''\<rparr>, body = ''When?''\<rparr>"

definition other_message :: email_message where
  "other_message =
     \<lparr>message_id = ''m2'', subject = ''Offer'',
      sender = \<lparr>email = ''b@x.com''\<rparr>, body = ''Buy now''\<rparr>"

definition example_hits :: "context_result list" where
  "example_hits =
     [\<lparr>content = ''Meeting is at 3pm'', similarity_score = 0.8\<rparr>,
      \<lparr>content = ''Lunch is at noon'', similarity_score = 0.5\<rparr>]"

definition example_config :: config where
  "example_config =
     \<lparr>whitelist = Present [''a@x.com''], blacklist = Null,
      answer_patterns =
        Some [''a@x.com'' \<mapsto>
                \<lparr>answer_pattern = Some ''Hi {sender}, info: {context_results}'',
                 answer_type = Some ''send''\<rparr>,
              ''d@x.com'' \<mapsto>
                \<lparr>answer_pattern = Some ''Hi {sender}: {context}'',
                 answer_type = Some ''draft''\<rparr>]\<rparr>"

definition example_capabilities :: "unit capabilities" where
  "example_capabilities =
     \<lparr>ep_connect = (\<lambda>w. (Inr (), w)),
      ep_disconnect = (\<lambda>w. (Inr (), w)),
      ep_fetch_messages = (\<lambda>w. (Inr [example_message, other_message], w)),
      ep_create_draft = (\<lambda>to subj b w. (Inr ''draft-1'', w)),
      ep_send_message_direct = (\<lambda>to subj b w. (Inr True, w)),
      kbm_check_new_emails = (\<lambda>limit include_body w. (Inr [example_message, other_message], w)),
      kbm_search = (\<lambda>q collection strategy top_k w. (Inr example_hits, w)),
      kbm_process_new_emails = (\<lambda>ids collection w. (Inr ids, w)),
      kbm_process_document = (\<lambda>path collection w. (Inr (), w)),
      kbm_list_collections = (\<lambda>w. (Inr [''Email''], w)),
      kbm_close = (\<lambda>w. (Inr (), w)),
      clean_email_body = (\<lambda>m. Inr (body m)),
      terminal = (\<lambda>timeout_seconds w. (Inr (Tty [None, Some ''q'']), w)),
      str_format_rest = no_extended_fields,
      initialize_email_profile = (\<lambda>w. (Inr (), w)),
      initialize_knowledge_base_manager = (\<lambda>w. (Inr (), w)),
      load_email_assistant_config = (\<lambda>path w. (Inr example_config, w))\<rparr>"

text \<open>The same collaborators, with a knowledge base that finds nothing.\<close>

definition empty_search :: "unit capabilities" where
  "empty_search =
     example_capabilities\<lparr>kbm_search := (\<lambda>q collection strategy top_k w. (Inr [], w))\<rparr>"

text \<open>
  The same collaborators after the connection is lost: the poll fails, and so does
  \<open>disconnect\<close>.
\<close>

definition failing_connection :: "unit capabilities" where
  "failing_connection =
     example_capabilities
       \<lparr>ep_disconnect := (\<lambda>w. (Inl (CapabilityError ''connection lost''), w)),
        kbm_check_new_emails :=
          (\<lambda>limit include_body w. (Inl (CapabilityError ''connection lost''), w))\<rparr>"

text \<open>The same collaborators with a \<open>disconnect\<close> that raises; the poll works.\<close>

definition failing_disconnect :: "unit capabilities" where
  "failing_disconnect =
     example_capabilities
       \<lparr>ep_disconnect := (\<lambda>w. (Inl (CapabilityError ''connection lost''), w))\<rparr>"

text \<open>The same collaborators with a \<open>create_draft\<close> that raises.\<close>

definition failing_drafts :: "unit capabilities" where
  "failing_drafts =
     example_capabilities
       \<lparr>ep_create_draft := (\<lambda>to subj b w. (Inl (CapabilityError ''mailbox full''), w))\<rparr>"

definition initial_state :: "unit state" where
  "initial_state = \<lparr>world = (), calls = []\<rparr>"

section \<open>Auxiliary facts\<close>

lemmas action_defs = returns_def raises_def lift_def and_then_def perform_def invoke_def

lemmas format_defs = render_answer_def render_field_def is_digit_def prepend_def
  str_may_have_attribute_def str_methods_def index_text_def

lemmas example_defs = example_message_def other_message_def example_hits_def example_config_def
  example_capabilities_def empty_search_def failing_connection_def failing_disconnect_def
  failing_drafts_def initial_state_def no_extended_fields_def

subsection \<open>Templates\<close>

lemma prepend_prepend: "prepend a (prepend b r) = prepend (a @ b) r"
  by (cases r) (simp_all add: prepend_def)

lemma py_format_literal:
  "brace_free l \<Longrightarrow> py_format ext (l @ t) kw = prepend l (py_format ext t kw)"
proof (induction l)
  case Nil
  show ?case by (cases "py_format ext t kw") (simp_all add: prepend_def)
next
  case (Cons c l)
  then have "c \<noteq> CHR ''{''" "c \<noteq> CHR ''}''" "brace_free l"
    by (auto simp: brace_free_def)
  with Cons.IH show ?case by (simp add: prepend_prepend)
qed

lemma py_format_sender_field:
  "py_format ext (''{sender}'' @ t) [(''sender'', a), (''context_results'', c)] =
     prepend a (py_format ext t [(''sender'', a), (''context_results'', c)])"
  by (simp add: render_field_def is_digit_def)

lemma py_format_context_field:
  "py_format ext (''{context_results}'' @ t) [(''sender'', a), (''context_results'', c)] =
     prepend c (py_format ext t [(''sender'', a), (''context_results'', c)])"
  by (simp add: render_field_def is_digit_def)

lemma render_answer_substitutes:
  assumes "brace_free l1" "brace_free l2" "brace_free l3"
  shows "render_answer ext (l1 @ ''{sender}'' @ l2 @ ''{context_results}'' @ l3) addr ctx =
           Inr (l1 @ addr @ l2 @ ctx @ l3)"
proof -
  let ?kw = "[(''sender'', addr), (''context_results'', ctx)]"
  have "py_format ext (l3 @ []) ?kw = prepend l3 (py_format ext [] ?kw)"
    using assms(3) by (rule py_format_literal)
  then have l3: "py_format ext l3 ?kw = Inr l3" by (simp add: prepend_def)
  have "py_format ext (l1 @ ''{sender}'' @ l2 @ ''{context_results}'' @ l3) ?kw =
          prepend l1 (prepend addr (prepend l2 (prepend ctx (py_format ext l3 ?kw))))"
    by (simp only: py_format_literal[OF assms(1)] py_format_sender_field
          py_format_literal[OF assms(2)] py_format_context_field)
  then show ?thesis by (simp add: render_answer_def l3 prepend_def)
qed

text \<open>
  The default template names the attribute \<open>email\<close> of the keyword argument
  \<open>sender\<close>, which is already the address, a string: rendering it raises
  \<open>AttributeError\<close> for every sender and every context.
\<close>

lemma default_answer_pattern_raises:
  "render_answer ext default_answer_pattern addr ctx = Inl (AttributeError ''email'')"
  by (simp add: default_answer_pattern_def format_defs)

subsection \<open>The confidence gate\<close>

lemma confident_loop_eq:
  "confident_loop acc results =
     acc @ concat (map (\<lambda>r. content r @ newline)
                     (filter (\<lambda>r. similarity_score r > 0.5) results))"
  by (induction results arbitrary: acc) simp_all

lemma confident_context_eq:
  "confident_context results =
     concat (map (\<lambda>r. content r @ newline) (filter (\<lambda>r. similarity_score r > 0.5) results))"
  by (simp add: confident_context_def confident_loop_eq)

lemma confident_context_empty:
  "confident_context results = [] \<longleftrightarrow> filter (\<lambda>r. similarity_score r > 0.5) results = []"
  by (induction results) (auto simp: confident_context_eq newline_def)

text \<open>
  A sender without an entry whose message has a confident search hit makes
  \<open>get_answer_for_email\<close> raise: the default template cannot be rendered.
\<close>

lemma unlisted_sender_raises:
  assumes "answer_patterns cfg = Some patterns"
    and "patterns (email (sender msg)) = None"
    and "clean_email_body cap msg = Inr q"
    and "kbm_search cap q collection HYBRID 3 (world s) = (Inr results, w')"
    and "filter (\<lambda>r. similarity_score r > 0.5) results \<noteq> []"
  shows "fst (get_answer_for_email cap cfg msg collection s) = Inl (AttributeError ''email'')"
proof -
  have "confident_context results \<noteq> []" "results \<noteq> []"
    using assms(5) by (auto simp: confident_context_empty)
  with assms show ?thesis
    by (simp add: get_answer_for_email_def resolve_answer_pattern_def action_defs Let_def
          default_answer_pattern_raises)
qed

subsection \<open>Calls\<close>

lemma get_answer_for_email_calls:
  "filter email_capability_call (calls (snd (get_answer_for_email cap cfg msg collection s))) =
     filter email_capability_call (calls s)"
  by (auto simp: get_answer_for_email_def action_defs Let_def email_capability_call_def
        split: prod.splits sum.splits)

lemma email_database_creation_calls:
  assumes "wl = None \<or> bl = None"
    and "ep_connect cap (world s) = (Inr (), w1)"
    and "ep_fetch_messages cap w1 = (Inr M, w2)"
  shows "take 3 (drop (length (calls s))
           (calls (snd (email_database_creation cap wl bl collection s)))) =
         [Connect, FetchMessages,
          KbProcessNewEmails (map message_id (sender_filter wl bl M)) collection]"
  using assms
  by (auto simp: email_database_creation_def action_defs Let_def split: prod.splits sum.splits)

lemma cleanup_bound:
  "cleanup cap True True s =
     (case ep_disconnect cap (world s) of
        (Inl e, w1) \<Rightarrow> (Inl e, \<lparr>world = w1, calls = calls s @ [Disconnect]\<rparr>)
      | (Inr u, w1) \<Rightarrow>
          (case kbm_close cap w1 of
             (r, w2) \<Rightarrow> (r, \<lparr>world = w2, calls = calls s @ [Disconnect, KbClose]\<rparr>)))"
  by (simp add: cleanup_def action_defs split: prod.splits sum.splits)

text \<open>
  However the loop is left, the \<open>finally\<close> block calls \<open>disconnect\<close>; it calls
  \<open>close\<close> on the knowledge base when \<open>disconnect\<close> returns, and only then.
\<close>

lemma poll_and_cleanup_calls:
  assumes "poll_loop fuel cap cfg s = Some (r, s1)"
  shows "case poll_and_cleanup fuel cap cfg s of
           None \<Rightarrow> False
         | Some (r', s2) \<Rightarrow>
             calls s2 = calls s1 @
               (case fst (ep_disconnect cap (world s1)) of
                  Inl e \<Rightarrow> [Disconnect]
                | Inr u \<Rightarrow> [Disconnect, KbClose])"
  using assms
  by (simp add: poll_and_cleanup_def try_finally_def cleanup_bound
        split: prod.splits sum.splits)

subsection \<open>The wait\<close>

lemma quit_pressed_iff:
  "quit_pressed ticks \<longleftrightarrow> Some ''q'' \<in> set ticks \<or> Some ''Q'' \<in> set ticks"
  by (induction ticks rule: quit_pressed.induct) (auto simp: lower_is_q_def)

lemma wait_with_quit_True:
  assumes "wait_with_quit cap timeout_seconds s = (Inr True, s1)"
  shows "\<exists>ticks. fst (terminal cap timeout_seconds (world s)) = Inr (Tty ticks)
           \<and> quit_pressed ticks \<and> calls s1 = calls s"
  using assms
  by (auto simp: wait_with_quit_def action_defs split: prod.splits sum.splits terminal_obs.splits)

text \<open>
  When the wait of a pass returns that the user asked to quit, the loop ends in the state
  the wait left, the wait having made no call; what follows is the \<open>finally\<close>
  block.
\<close>

lemma quit_leaves_loop:
  assumes "subscript ''whitelist'' (whitelist cfg) = Inr wl"
    and "subscript ''blacklist'' (blacklist cfg) = Inr bl"
    and "check_new_emails cap ''Email'' 5 wl bl s = (Inr new_emails, sa)"
    and "process_messages cap cfg new_emails sa = (Inr (), sb)"
    and "wait_with_quit cap 120 sb = (Inr True, s1)"
  shows "poll_loop (Suc n) cap cfg s = Some (Inr (), s1)
       \<and> calls s1 = calls sb
       \<and> (case poll_and_cleanup (Suc n) cap cfg s of
            None \<Rightarrow> False
          | Some (r, s2) \<Rightarrow>
              calls s2 = calls s1 @
                (case fst (ep_disconnect cap (world s1)) of
                   Inl e \<Rightarrow> [Disconnect]
                 | Inr u \<Rightarrow> [Disconnect, KbClose]))"
proof -
  have it: "poll_iteration cap cfg s = (Inr True, s1)"
    using assms by (simp add: poll_iteration_def and_then_def lift_def)
  then have lp: "poll_loop (Suc n) cap cfg s = Some (Inr (), s1)" by simp
  have w: "calls s1 = calls sb"
    using wait_with_quit_True[OF assms(5)] by blast
  from lp have "case poll_and_cleanup (Suc n) cap cfg s of
            None \<Rightarrow> False
          | Some (r, s2) \<Rightarrow>
              calls s2 = calls s1 @
                (case fst (ep_disconnect cap (world s1)) of
                   Inl e \<Rightarrow> [Disconnect]
                 | Inr u \<Rightarrow> [Disconnect, KbClose])"
    by (rule poll_and_cleanup_calls)
  with lp w show ?thesis by simp
qed

section \<open>The claims\<close>

subsection \<open>C1: the confidence gate\<close>

text \<open>
  C1.  Whatever list the search returns, the context is the concatenation, in the order
  of the search, of the contents of exactly the results whose \<open>similarity_score\<close> is
  strictly greater than \<open>0.5\<close>, each followed by a newline.  When no result passes
  the gate, in particular when there is no result, \<open>get_answer_for_email\<close> returns
  \<open>None\<close>; otherwise it returns the template rendered with that context.  The
  hypotheses say that the template was resolved, that the preprocessor returned the
  query and that the search returned the list.
\<close>

theorem C1_confidence_gate:
  assumes "resolve_answer_pattern cfg (email (sender msg)) = Inr pattern"
    and "clean_email_body cap msg = Inr q"
    and "kbm_search cap q collection HYBRID 3 (world s) = (Inr results, w')"
  shows "confident_context results =
           concat (map (\<lambda>r. content r @ newline)
                     (filter (\<lambda>r. similarity_score r > 0.5) results))
       \<and> fst (get_answer_for_email cap cfg msg collection s) =
           (if filter (\<lambda>r. similarity_score r > 0.5) results = [] then Inr None
            else (case render_answer (str_format_rest cap) pattern (email (sender msg))
                         (confident_context results) of
                    Inl e \<Rightarrow> Inl e
                  | Inr a \<Rightarrow> Inr (Some a)))"
proof
  show "confident_context results =
           concat (map (\<lambda>r. content r @ newline)
                     (filter (\<lambda>r. similarity_score r > 0.5) results))"
    by (rule confident_context_eq)
next
  show "fst (get_answer_for_email cap cfg msg collection s) =
           (if filter (\<lambda>r. similarity_score r > 0.5) results = [] then Inr None
            else (case render_answer (str_format_rest cap) pattern (email (sender msg))
                         (confident_context results) of
                    Inl e \<Rightarrow> Inl e
                  | Inr a \<Rightarrow> Inr (Some a)))"
  proof (cases "filter (\<lambda>r. similarity_score r > 0.5) results = []")
    case True
    then have "confident_context results = []" by (simp add: confident_context_empty)
    with True assms show ?thesis
      by (simp add: get_answer_for_email_def action_defs Let_def)
  next
    case False
    then have "confident_context results \<noteq> []" "results \<noteq> []"
      by (auto simp: confident_context_empty)
    with False assms show ?thesis
      by (simp add: get_answer_for_email_def action_defs Let_def split: sum.splits)
  qed
qed

text \<open>
  In the example the hit with score \<open>0.8\<close> is kept and the hit with score exactly
  \<open>0.5\<close> is dropped.
\<close>

theorem C1_confidence_gate_witness:
  "confident_context example_hits = ''Meeting is at 3pm'' @ newline
   \<and> fst (get_answer_for_email example_capabilities example_config example_message ''Email''
            initial_state) =
       Inr (Some (''Hi a@x.com, info: Meeting is at 3pm'' @ newline))"
proof -
  have h1: "resolve_answer_pattern example_config (email (sender example_message)) =
              Inr ''Hi {sender}, info: {context_results}''"
    by (simp add: resolve_answer_pattern_def example_defs)
  have h2: "clean_email_body example_capabilities example_message = Inr ''When?''"
    by (simp add: example_defs)
  have h3: "kbm_search example_capabilities ''When?'' ''Email'' HYBRID 3 (world initial_state) =
              (Inr example_hits, ())"
    by (simp add: example_defs)
  have c: "confident_context example_hits = ''Meeting is at 3pm'' @ newline"
    by (simp add: confident_context_def example_hits_def)
  have f: "filter (\<lambda>r. similarity_score r > 0.5) example_hits \<noteq> []"
    by (simp add: example_hits_def)
  have r: "render_answer no_extended_fields ''Hi {sender}, info: {context_results}'' ''a@x.com''
             (''Meeting is at 3pm'' @ newline) =
           Inr (''Hi a@x.com, info: Meeting is at 3pm'' @ newline)"
    by (simp add: format_defs newline_def)
  have e: "str_format_rest example_capabilities = no_extended_fields"
       "email (sender example_message) = ''a@x.com''"
    by (simp_all add: example_defs)
  from C1_confidence_gate[OF h1 h2 h3] show ?thesis
    by (simp only: c f r e if_False sum.case simp_thms)
qed

subsection \<open>C2: the template of the sender and the default template\<close>

text \<open>
  C2, as stated, fails.  The keyword arguments of the \<open>format\<close> call are
  \<open>sender\<close> and \<open>context_results\<close>, so the pattern \<open>Hi {sender}: {context}\<close>
  of the claim does not render to \<open>Hi d@x.com: C\<close>: it raises \<open>KeyError\<close>.
\<close>

theorem C2_counterexample:
  "resolve_answer_pattern example_config ''d@x.com'' = Inr ''Hi {sender}: {context}''
   \<and> render_answer no_extended_fields ''Hi {sender}: {context}'' ''d@x.com'' ''C'' =
       Inl (KeyError ''context'')"
  by (simp add: resolve_answer_pattern_def example_config_def format_defs)

text \<open>
  C2, amended.  When \<open>answer_patterns\<close> has an entry for the sender, the template is
  the \<open>answer_pattern\<close> of that entry; when it has none, the template is the fixed
  default template of the module.  A template made of text without braces around the
  placeholders \<open>{sender}\<close> and \<open>{context_results}\<close> renders to that text with the
  address and the context in their places.
\<close>

theorem C2_pattern_resolution:
  "(answer_patterns cfg = Some patterns \<and> patterns addr = Some entry
      \<and> answer_pattern entry = Some p \<longrightarrow>
        resolve_answer_pattern cfg addr = Inr p)
   \<and> (answer_patterns cfg = Some patterns \<and> patterns addr = None \<longrightarrow>
        resolve_answer_pattern cfg addr = Inr default_answer_pattern)
   \<and> (brace_free pre \<and> brace_free mid \<and> brace_free post \<longrightarrow>
        render_answer ext (pre @ ''{sender}'' @ mid @ ''{context_results}'' @ post) addr ctx =
          Inr (pre @ addr @ mid @ ctx @ post))"
proof (intro conjI impI)
  assume "answer_patterns cfg = Some patterns \<and> patterns addr = Some entry
      \<and> answer_pattern entry = Some p"
  then show "resolve_answer_pattern cfg addr = Inr p"
    by (simp add: resolve_answer_pattern_def)
next
  assume "answer_patterns cfg = Some patterns \<and> patterns addr = None"
  then show "resolve_answer_pattern cfg addr = Inr default_answer_pattern"
    by (simp add: resolve_answer_pattern_def)
next
  assume "brace_free pre \<and> brace_free mid \<and> brace_free post"
  then show "render_answer ext (pre @ ''{sender}'' @ mid @ ''{context_results}'' @ post) addr ctx =
          Inr (pre @ addr @ mid @ ctx @ post)"
    by (intro render_answer_substitutes) simp_all
qed

theorem C2_pattern_resolution_witness:
  "resolve_answer_pattern example_config ''a@x.com'' = Inr ''Hi {sender}, info: {context_results}''
   \<and> resolve_answer_pattern example_config ''b@x.com'' = Inr default_answer_pattern
   \<and> render_answer no_extended_fields ''Hi {sender}: {context_results}'' ''a@x.com'' ''C'' =
       Inr ''Hi a@x.com: C''"
proof -
  let ?pats = "[''a@x.com'' \<mapsto>
                     \<lparr>answer_pattern = Some ''Hi {sender}, info: {context_results}'',
                      answer_type = Some ''send''\<rparr>,
                   ''d@x.com'' \<mapsto>
                     \<lparr>answer_pattern = Some ''Hi {sender}: {context}'',
                      answer_type = Some ''draft''\<rparr>]"
  have a: "answer_patterns example_config = Some ?pats"
    by (simp add: example_config_def)
  have b: "brace_free ''Hi ''" "brace_free '': ''" "brace_free ''''"
    by (simp_all add: brace_free_def)
  have 1: "resolve_answer_pattern example_config ''a@x.com'' =
             Inr ''Hi {sender}, info: {context_results}''"
    using C2_pattern_resolution[of example_config ?pats "''a@x.com''"
        "\<lparr>answer_pattern = Some ''Hi {sender}, info: {context_results}'',
          answer_type = Some ''send''\<rparr>" "''Hi {sender}, info: {context_results}''"] a
    by simp
  have 2: "resolve_answer_pattern example_config ''b@x.com'' = Inr default_answer_pattern"
    using C2_pattern_resolution[of example_config ?pats "''b@x.com''"] a by simp
  have 3: "render_answer no_extended_fields ''Hi {sender}: {context_results}'' ''a@x.com'' ''C'' =
             Inr ''Hi a@x.com: C''"
    using C2_pattern_resolution[where pre = "''Hi ''" and mid = "'': ''" and post = "''''"
        and ext = no_extended_fields and addr = "''a@x.com''" and ctx = "''C''"] b
    by simp
  from 1 2 3 show ?thesis by simp
qed

subsection \<open>C3: the sender filter\<close>

text \<open>
  C3.  For the messages \<open>M\<close> that the knowledge-base manager reports,
  \<open>check_new_emails\<close> with only a whitelist \<open>S\<close> returns the messages of \<open>M\<close>
  whose sender address is in \<open>S\<close>, in the order of \<open>M\<close>; with only a blacklist
  \<open>S\<close> it returns those whose sender address is not in \<open>S\<close>, in the order of
  \<open>M\<close>; with neither it returns \<open>M\<close>.  \<open>email_database_creation\<close> selects the
  messages it fetched in the same way and hands their identifiers to the knowledge base.
\<close>

theorem C3_sender_filter:
  assumes "kbm_check_new_emails cap limit True (world s) = (Inr M, w')"
    and "ep_connect cap (world s) = (Inr (), w1)"
    and "ep_fetch_messages cap w1 = (Inr M, w2)"
  shows "fst (check_new_emails cap collection limit (Some S) None s) =
           Inr (filter (\<lambda>m. email (sender m) \<in> set S) M)
       \<and> fst (check_new_emails cap collection limit None (Some S) s) =
           Inr (filter (\<lambda>m. email (sender m) \<notin> set S) M)
       \<and> fst (check_new_emails cap collection limit None None s) = Inr M
       \<and> take 3 (drop (length (calls s))
           (calls (snd (email_database_creation cap (Some S) None collection s)))) =
         [Connect, FetchMessages,
          KbProcessNewEmails (map message_id (filter (\<lambda>m. email (sender m) \<in> set S) M))
            collection]
       \<and> take 3 (drop (length (calls s))
           (calls (snd (email_database_creation cap None (Some S) collection s)))) =
         [Connect, FetchMessages,
          KbProcessNewEmails (map message_id (filter (\<lambda>m. email (sender m) \<notin> set S) M))
            collection]
       \<and> take 3 (drop (length (calls s))
           (calls (snd (email_database_creation cap None None collection s)))) =
         [Connect, FetchMessages, KbProcessNewEmails (map message_id M) collection]"
proof -
  have f: "sender_filter (Some S) None M = filter (\<lambda>m. email (sender m) \<in> set S) M"
      "sender_filter None (Some S) M = filter (\<lambda>m. email (sender m) \<notin> set S) M"
      "sender_filter None None M = M"
    by (simp_all add: sender_filter_def)
  have c: "fst (check_new_emails cap collection limit wl bl s) = Inr (sender_filter wl bl M)"
    if "wl = None \<or> bl = None" for wl bl
    using that assms(1) by (auto simp: check_new_emails_def action_defs Let_def)
  show ?thesis
    using c[of "Some S" None] c[of None "Some S"] c[of None None]
      email_database_creation_calls[OF _ assms(2,3), of "Some S" None collection]
      email_database_creation_calls[OF _ assms(2,3), of None "Some S" collection]
      email_database_creation_calls[OF _ assms(2,3), of None None collection]
    by (simp add: f)
qed

theorem C3_sender_filter_witness:
  "fst (check_new_emails example_capabilities ''Email'' 5 (Some [''a@x.com'']) None initial_state) =
     Inr [example_message]
   \<and> fst (check_new_emails example_capabilities ''Email'' 5 None (Some [''a@x.com'']) initial_state) =
     Inr [other_message]
   \<and> fst (check_new_emails example_capabilities ''Email'' 5 None None initial_state) =
     Inr [example_message, other_message]
   \<and> calls (snd (email_database_creation example_capabilities (Some [''a@x.com'']) None ''Email''
                   initial_state)) =
     [Connect, FetchMessages, KbProcessNewEmails [''m1''] ''Email'', Disconnect]"
proof -
  have h1: "kbm_check_new_emails example_capabilities 5 True (world initial_state) =
              (Inr [example_message, other_message], ())"
    by (simp add: example_defs)
  have h2: "ep_connect example_capabilities (world initial_state) = (Inr (), ())"
    by (simp add: example_defs)
  have h3: "ep_fetch_messages example_capabilities () = (Inr [example_message, other_message], ())"
    by (simp add: example_defs)
  have e: "calls (snd (email_database_creation example_capabilities (Some [''a@x.com'']) None
                         ''Email'' initial_state)) =
           [Connect, FetchMessages, KbProcessNewEmails [''m1''] ''Email'', Disconnect]"
    by (simp add: email_database_creation_def sender_filter_def action_defs example_defs Let_def)
  have m: "email (sender example_message) = ''a@x.com''" "email (sender other_message) = ''b@x.com''"
    by (simp_all add: example_defs)
  from C3_sender_filter[OF h1 h2 h3, of "''Email''" "[''a@x.com'']"] e show ?thesis
    by (simp add: m)
qed

subsection \<open>C4: a whitelist together with a blacklist\<close>

text \<open>
  C4.  Called with a non-empty whitelist and a non-empty blacklist,
  \<open>check_new_emails\<close> and \<open>email_database_creation\<close> raise the \<open>ValueError\<close>
  of the module and leave the state as it was: no call was made on the email provider or
  on the knowledge base, and the world did not move.
\<close>

theorem C4_both_lists_rejected:
  assumes "S1 \<noteq> []" and "S2 \<noteq> []"
  shows "check_new_emails cap collection limit (Some S1) (Some S2) s = (Inl both_lists_error, s)
       \<and> email_database_creation cap (Some S1) (Some S2) collection s = (Inl both_lists_error, s)"
  by (simp add: check_new_emails_def email_database_creation_def raises_def)

theorem C4_both_lists_rejected_witness:
  "[''a@x.com''] \<noteq> [] \<and> [''b@x.com''] \<noteq> []
   \<and> check_new_emails example_capabilities ''Email'' 5 (Some [''a@x.com'']) (Some [''b@x.com''])
        initial_state = (Inl both_lists_error, initial_state)
   \<and> email_database_creation example_capabilities (Some [''a@x.com'']) (Some [''b@x.com''])
        ''Email'' initial_state = (Inl both_lists_error, initial_state)"
  using C4_both_lists_rejected[of "[''a@x.com'']" "[''b@x.com'']" example_capabilities
      "''Email''" 5 initial_state]
  by simp

subsection \<open>C5: draft or send\<close>

text \<open>
  C5.  For an answer that is not \<open>None\<close>: when the sender has an entry whose
  \<open>answer_type\<close> is \<open>draft\<close>, the loop body applies \<open>create_draft\<close> of the
  email provider to the world it is in, once, and nothing else, so
  \<open>send_message_direct\<close> is not called; when the entry has another
  \<open>answer_type\<close>, or the sender has no entry, it applies
  \<open>send_message_direct\<close>, once, and nothing else.  In each case the recipient is the
  sender of the message, the subject is \<open>RE: \<close> followed by the subject of the
  message, and the body is the answer; the world is the one the provider operation
  leaves, an exception of the operation is passed on, and its return value is dropped.
\<close>

theorem C5_dispatch_routing:
  assumes "answer_patterns cfg = Some patterns"
  shows "(patterns (email (sender msg)) = Some entry \<and> answer_type entry = Some ''draft'' \<longrightarrow>
            dispatch_answer cap cfg msg (Some a) s =
              (case ep_create_draft cap (sender msg) (''RE: '' @ subject msg) a (world s) of
                 (r, w') \<Rightarrow>
                   ((case r of Inl e \<Rightarrow> Inl e | Inr draft \<Rightarrow> Inr ()),
                    \<lparr>world = w',
                     calls = calls s @
                       [CreateDraft (sender msg) (''RE: '' @ subject msg) a]\<rparr>)))
       \<and> (patterns (email (sender msg)) = Some entry \<and> answer_type entry = Some t
            \<and> t \<noteq> ''draft'' \<longrightarrow>
            dispatch_answer cap cfg msg (Some a) s =
              (case ep_send_message_direct cap (sender msg) (''RE: '' @ subject msg) a (world s) of
                 (r, w') \<Rightarrow>
                   ((case r of Inl e \<Rightarrow> Inl e | Inr success \<Rightarrow> Inr ()),
                    \<lparr>world = w',
                     calls = calls s @
                       [SendMessageDirect (sender msg) (''RE: '' @ subject msg) a]\<rparr>)))
       \<and> (patterns (email (sender msg)) = None \<longrightarrow>
            dispatch_answer cap cfg msg (Some a) s =
              (case ep_send_message_direct cap (sender msg) (''RE: '' @ subject msg) a (world s) of
                 (r, w') \<Rightarrow>
                   ((case r of Inl e \<Rightarrow> Inl e | Inr success \<Rightarrow> Inr ()),
                    \<lparr>world = w',
                     calls = calls s @
                       [SendMessageDirect (sender msg) (''RE: '' @ subject msg) a]\<rparr>)))"
  using assms
  by (auto simp: dispatch_answer_def wants_draft_def draft_answer_for_email_def
        send_answer_to_email_def action_defs Let_def split: prod.splits sum.splits)

text \<open>
  In the example the provider files the draft for \<open>d@x.com\<close> and sends to
  \<open>a@x.com\<close> and \<open>b@x.com\<close>; a provider whose \<open>create_draft\<close> raises makes
  the loop body raise the same exception.
\<close>

theorem C5_dispatch_routing_witness:
  "dispatch_answer example_capabilities example_config
     (example_message\<lparr>sender := \<lparr>email = ''d@x.com''\<rparr>\<rparr>) (Some ''answer'') initial_state =
     (Inr (),
      \<lparr>world = (),
       calls = [CreateDraft \<lparr>email = ''d@x.com''\<rparr> ''RE: Meeting on Friday?'' ''answer'']\<rparr>)
   \<and> dispatch_answer example_capabilities example_config example_message (Some ''answer'')
       initial_state =
     (Inr (),
      \<lparr>world = (),
       calls = [SendMessageDirect \<lparr>email = ''a@x.com''\<rparr> ''RE: Meeting on Friday?''
                  ''answer'']\<rparr>)
   \<and> dispatch_answer example_capabilities example_config other_message (Some ''answer'')
       initial_state =
     (Inr (),
      \<lparr>world = (),
       calls = [SendMessageDirect \<lparr>email = ''b@x.com''\<rparr> ''RE: Offer'' ''answer'']\<rparr>)
   \<and> dispatch_answer failing_drafts example_config
       (example_message\<lparr>sender := \<lparr>email = ''d@x.com''\<rparr>\<rparr>) (Some ''answer'') initial_state =
     (Inl (CapabilityError ''mailbox full''),
      \<lparr>world = (),
       calls = [CreateDraft \<lparr>email = ''d@x.com''\<rparr> ''RE: Meeting on Friday?'' ''answer'']\<rparr>)"
proof -
  let ?pats = "[''a@x.com'' \<mapsto>
                     \<lparr>answer_pattern = Some ''Hi {sender}, info: {context_results}'',
                      answer_type = Some ''send''\<rparr>,
                   ''d@x.com'' \<mapsto>
                     \<lparr>answer_pattern = Some ''Hi {sender}: {context}'',
                      answer_type = Some ''draft''\<rparr>]"
  let ?draft_entry =
    "\<lparr>answer_pattern = Some ''Hi {sender}: {context}'', answer_type = Some ''draft''\<rparr>"
  let ?to_d = "example_message\<lparr>sender := \<lparr>email = ''d@x.com''\<rparr>\<rparr>"
  have a: "answer_patterns example_config = Some ?pats"
    by (simp add: example_config_def)
  have 1: "dispatch_answer example_capabilities example_config ?to_d (Some ''answer'')
             initial_state =
     (Inr (),
      \<lparr>world = (),
       calls = [CreateDraft \<lparr>email = ''d@x.com''\<rparr> ''RE: Meeting on Friday?'' ''answer'']\<rparr>)"
    using C5_dispatch_routing[OF a, of ?to_d ?draft_entry example_capabilities "''answer''"
        initial_state]
    by (simp add: example_defs)
  have 2: "dispatch_answer example_capabilities example_config example_message (Some ''answer'')
       initial_state =
     (Inr (),
      \<lparr>world = (),
       calls = [SendMessageDirect \<lparr>email = ''a@x.com''\<rparr> ''RE: Meeting on Friday?''
                  ''answer'']\<rparr>)"
    using C5_dispatch_routing[OF a, of example_message
        "\<lparr>answer_pattern = Some ''Hi {sender}, info: {context_results}'',
          answer_type = Some ''send''\<rparr>"
        example_capabilities "''answer''" initial_state "''send''"]
    by (simp add: example_defs)
  have 3: "dispatch_answer example_capabilities example_config other_message (Some ''answer'')
       initial_state =
     (Inr (),
      \<lparr>world = (),
       calls = [SendMessageDirect \<lparr>email = ''b@x.com''\<rparr> ''RE: Offer'' ''answer'']\<rparr>)"
    using C5_dispatch_routing[OF a, of other_message _ example_capabilities "''answer''"
        initial_state]
    by (simp add: example_defs)
  have 4: "dispatch_answer failing_drafts example_config ?to_d (Some ''answer'') initial_state =
     (Inl (CapabilityError ''mailbox full''),
      \<lparr>world = (),
       calls = [CreateDraft \<lparr>email = ''d@x.com''\<rparr> ''RE: Meeting on Friday?'' ''answer'']\<rparr>)"
    using C5_dispatch_routing[OF a, of ?to_d ?draft_entry failing_drafts "''answer''"
        initial_state]
    by (simp add: example_defs)
  from 1 2 3 4 show ?thesis by simp
qed

subsection \<open>C6: the search request\<close>




subsection \<open>C7: no answer, no call\<close>

text \<open>
  C7.  With the answer \<open>None\<close> the loop body does nothing after
  \<open>get_answer_for_email\<close>: the state is the one the retrieval left, and processing
  the message has added no call on the email provider.
\<close>

theorem C7_no_answer_no_call:
  "dispatch_answer cap cfg msg None s = (Inr (), s)
   \<and> (get_answer_for_email cap cfg msg ''Email'' s = (Inr None, s1) \<longrightarrow>
        process_message cap cfg msg s = (Inr (), s1)
        \<and> filter email_capability_call (calls (snd (process_message cap cfg msg s))) =
            filter email_capability_call (calls s))"
proof -
  have d: "dispatch_answer cap cfg msg None s1 = (Inr (), s1)" for s1 :: "'a state"
    by (simp add: dispatch_answer_def returns_def)
  have "process_message cap cfg msg s = (Inr (), s1)
        \<and> filter email_capability_call (calls (snd (process_message cap cfg msg s))) =
            filter email_capability_call (calls s)"
    if g: "get_answer_for_email cap cfg msg ''Email'' s = (Inr None, s1)"
  proof -
    have p: "process_message cap cfg msg s = (Inr (), s1)"
      by (simp add: process_message_def and_then_def g d)
    have "calls s1 = calls (snd (get_answer_for_email cap cfg msg ''Email'' s))"
      by (simp add: g)
    then show ?thesis
      using get_answer_for_email_calls[of cap cfg msg "''Email''" s] by (simp add: p)
  qed
  with d show ?thesis by blast
qed

theorem C7_no_answer_no_call_witness:
  "get_answer_for_email empty_search example_config example_message ''Email'' initial_state =
     (Inr None, \<lparr>world = (), calls = [KbSearch ''When?'' ''Email'' HYBRID 3]\<rparr>)
   \<and> process_message empty_search example_config example_message initial_state =
     (Inr (), \<lparr>world = (), calls = [KbSearch ''When?'' ''Email'' HYBRID 3]\<rparr>)"
proof -
  have g: "get_answer_for_email empty_search example_config example_message ''Email''
             initial_state =
           (Inr None, \<lparr>world = (), calls = [KbSearch ''When?'' ''Email'' HYBRID 3]\<rparr>)"
    by (simp add: get_answer_for_email_def resolve_answer_pattern_def action_defs example_defs)
  from C7_no_answer_no_call[of empty_search example_config example_message initial_state
      "\<lparr>world = (), calls = [KbSearch ''When?'' ''Email'' HYBRID 3]\<rparr>"] g
  show ?thesis by simp
qed

subsection \<open>C8: the cleanup\<close>

text \<open>
  C8 does not hold of the code.  The \<open>finally\<close> block calls \<open>disconnect\<close> and
  then \<open>close\<close>; when \<open>disconnect\<close> raises, \<open>close\<close> is not called.  In the
  run below the connection is lost: the poll raises, the loop is left by the exception,
  \<open>disconnect\<close> raises in the \<open>finally\<close> block, and the knowledge-base handle is
  never closed.
\<close>

theorem C8_cleanup_incomplete:
  "poll_and_cleanup 1 failing_connection example_config initial_state =
     Some (Inl (CapabilityError ''connection lost''),
           \<lparr>world = (), calls = [KbCheckNewEmails 5 True, Disconnect]\<rparr>)"
  by (simp add: poll_and_cleanup_def poll_iteration_def check_new_emails_def subscript_def
        try_finally_def cleanup_def action_defs example_defs)

subsection \<open>C9: quitting during the wait\<close>

text \<open>
  C9 does not hold of the code.  When the wait of a pass returns that the user asked to
  quit, the loop ends in the state the wait left and nothing is fetched again
  (\<open>quit_leaves_loop\<close>), but the cleanup then runs in full only when
  \<open>disconnect\<close> returns.  In the run below the inbox holds one message, which is
  answered, and the user presses \<open>q\<close> during the wait: the loop is left by
  \<open>break\<close>, \<open>disconnect\<close> raises in the \<open>finally\<close> block, the
  knowledge-base handle is never closed, and the run ends with the exception.
\<close>

theorem C9_quit_cleanup_incomplete:
  "poll_loop 1 failing_disconnect example_config initial_state =
     Some (Inr (),
       \<lparr>world = (),
        calls = [KbCheckNewEmails 5 True, KbSearch ''When?'' ''Email'' HYBRID 3,
                 SendMessageDirect \<lparr>email = ''a@x.com''\<rparr> ''RE: Meeting on Friday?''
                   (''Hi a@x.com, info: Meeting is at 3pm'' @ newline)]\<rparr>)
   \<and> poll_and_cleanup 1 failing_disconnect example_config initial_state =
     Some (Inl (CapabilityError ''connection lost''),
       \<lparr>world = (),
        calls = [KbCheckNewEmails 5 True, KbSearch ''When?'' ''Email'' HYBRID 3,
                 SendMessageDirect \<lparr>email = ''a@x.com''\<rparr> ''RE: Meeting on Friday?''
                   (''Hi a@x.com, info: Meeting is at 3pm'' @ newline),
                 Disconnect]\<rparr>)"
proof -
  have it: "poll_iteration failing_disconnect example_config initial_state =
     (Inr True,
       \<lparr>world = (),
        calls = [KbCheckNewEmails 5 True, KbSearch ''When?'' ''Email'' HYBRID 3,
                 SendMessageDirect \<lparr>email = ''a@x.com''\<rparr> ''RE: Meeting on Friday?''
                   (''Hi a@x.com, info: Meeting is at 3pm'' @ newline)]\<rparr>)"
    by (simp add: poll_iteration_def subscript_def check_new_emails_def sender_filter_def
          process_message_def get_answer_for_email_def resolve_answer_pattern_def
          dispatch_answer_def wants_draft_def send_answer_to_email_def confident_context_def
          wait_with_quit_def lower_is_q_def action_defs example_defs format_defs Let_def
          newline_def)
  then have lp: "poll_loop 1 failing_disconnect example_config initial_state =
     Some (Inr (),
       \<lparr>world = (),
        calls = [KbCheckNewEmails 5 True, KbSearch ''When?'' ''Email'' HYBRID 3,
                 SendMessageDirect \<lparr>email = ''a@x.com''\<rparr> ''RE: Meeting on Friday?''
                   (''Hi a@x.com, info: Meeting is at 3pm'' @ newline)]\<rparr>)"
    by simp
  have d: "ep_disconnect failing_disconnect () = (Inl (CapabilityError ''connection lost''), ())"
    by (simp add: example_defs)
  from lp d show ?thesis
    by (simp add: poll_and_cleanup_def try_finally_def cleanup_bound)
qed

subsection \<open>C10: both keys set to lists\<close>

text \<open>
  C10.  \<open>check_new_emails\<close> and \<open>email_database_creation\<close> raise the
  \<open>ValueError\<close> whenever both the whitelist and the blacklist are lists, empty or
  not.  With a configuration whose two keys hold lists, a pass of the loop started in
  any state raises that error before any call, and the loop is left with it.
\<close>

theorem C10_both_keys_fail:
  "check_new_emails cap collection limit (Some wl) (Some bl) s = (Inl both_lists_error, s)
   \<and> email_database_creation cap (Some wl) (Some bl) collection s = (Inl both_lists_error, s)
   \<and> poll_iteration cap (cfg\<lparr>whitelist := Present wl, blacklist := Present bl\<rparr>) s =
        (Inl both_lists_error, s)
   \<and> poll_loop (Suc n) cap (cfg\<lparr>whitelist := Present wl, blacklist := Present bl\<rparr>) s =
        Some (Inl both_lists_error, s)"
  by (simp add: check_new_emails_def email_database_creation_def poll_iteration_def
        subscript_def action_defs)

theorem C10_both_keys_fail_witness:
  "check_new_emails example_capabilities ''Email'' 5 (Some []) (Some []) initial_state =
     (Inl both_lists_error, initial_state)
   \<and> poll_loop 1 example_capabilities
        (example_config\<lparr>whitelist := Present [], blacklist := Present []\<rparr>) initial_state =
      Some (Inl both_lists_error, initial_state)"
  using C10_both_keys_fail[of example_capabilities "''Email''" 5 "[]" "[]" initial_state
      example_config 0]
  by simp

end
